theory Spec2Isabelle
  imports Complex_Main
begin

section \<open>The level-break scanner of \<open>src/http/get-quotes/index.ts\<close>\<close>

text \<open>
  The handler validates a shared secret, fetches a quote and a list of support and
  resistance levels for each symbol of a fixed list, and reports the levels that the day's
  price action has crossed.

  Numbers. A JavaScript number is an IEEE double. The numbers of this program come out of
  \<open>response.json()\<close>, which never yields NaN, and the program only compares them
  (\<open><=\<close>, \<open>>=\<close>): no arithmetic, so no rounding. On such values the comparisons are the
  order of the real numbers they denote, and \<open>number\<close> is modelled as \<open>real\<close>. A literal
  too large for a double parses to an infinity, which the model leaves out. A key that is
  missing from a JSON object reads as \<open>undefined\<close>, here \<open>None\<close>; values of another type
  (a string or \<open>null\<close> where a number is expected) are outside the model.
\<close>

subsection \<open>Data model\<close>

type_synonym number = real

text \<open>\<open>interface Headers\<close> and \<open>interface QueryParams\<close>: string-keyed mappings. A key that is
  not there reads as \<open>undefined\<close> (\<open>None\<close>); the values are the strings of the HTTP request.\<close>

type_synonym Headers = "string \<rightharpoonup> string"

type_synonym QueryParams = "string \<rightharpoonup> string"

record Request =
  headers :: Headers
  queryStringParameters :: QueryParams

text \<open>\<open>interface LevelBreak\<close>: \<open>broke\<close> is mandatory, the other three fields are optional.\<close>

record LevelBreak =
  broke :: bool
  resistance :: "number option"
  support :: "number option"
  closedBroken :: "bool option"

text \<open>The \<open>quotes\<close> object of \<open>ParsedResults\<close> is a dictionary of \<open>any\<close>; the program reads
  its keys \<open>o\<close>, \<open>h\<close>, \<open>l\<close> and \<open>c\<close> (the selectors carry the prefix \<open>q_\<close>, since \<open>o\<close> is
  function composition in HOL).\<close>

record Quote =
  q_o :: "number option"
  q_h :: "number option"
  q_l :: "number option"
  q_c :: "number option"

text \<open>\<open>interface ParsedResults\<close>. The field \<open>supportResistance\<close> is declared \<open>number[]\<close>, and
  is filled from a value of type \<open>any\<close>: it is \<open>undefined\<close> when the upstream object has no
  key \<open>levels\<close>.\<close>

record ParsedResults =
  quotes :: Quote
  supportResistance :: "number list option"

text \<open>What \<open>response.json()\<close> gives, as far as the program reads it: the keys \<open>o\<close>, \<open>h\<close>,
  \<open>l\<close>, \<open>c\<close> (numbers when present) and the key \<open>levels\<close> (an array of numbers when
  present).\<close>

record ApiData =
  props :: Quote
  levels :: "number list option"

text \<open>The object \<open>{ data, result }\<close> that \<open>fetchQuotes\<close> and \<open>fetchSupportResistance\<close>
  return.\<close>

record ApiResult =
  data :: ApiData
  result :: string

text \<open>The object \<open>{ symbol, brokenLevels }\<close> built for each symbol.\<close>

record ScanResult =
  symbol :: string
  brokenLevels :: "LevelBreak list"

text \<open>A rejected promise or a thrown exception: the upstream call failed (network error,
  body that is not JSON), or a property of \<open>undefined\<close> was read.\<close>

datatype error = FetchError | TypeError

text \<open>The body of a response: one of the plain texts, or \<open>JSON.stringify(results)\<close>,
  kept as the array it serialises.\<close>

datatype Body = Text string | Json "ScanResult list"

record Response =
  statusCode :: nat
  resp_headers :: "(string \<times> string) list"
  body :: Body

text \<open>\<open>Deno.env.toObject()\<close>, read once: a variable that is not set is \<open>undefined\<close>.\<close>

record Env =
  CRON_TOKEN :: "string option"
  FINNHUB_AUTH_TOKEN :: "string option"

text \<open>An outbound call \<open>fetch(url, { headers })\<close> followed by \<open>response.json()\<close>. The URL is
  the endpoint, \<open>?\<close> and \<open>stringify(query)\<close>; the call is identified here by the endpoint
  and the query object. The upstream provider is a parameter of the model.\<close>

record UpstreamRequest =
  endpoint :: string
  query :: "(string \<times> string) list"
  finnhub_token :: "string option"

type_synonym Upstream = "UpstreamRequest \<Rightarrow> error + ApiData"

subsection \<open>JavaScript primitives\<close>

text \<open>\<open>x <= y\<close> and \<open>x >= y\<close> where \<open>x\<close> may be \<open>undefined\<close>: \<open>undefined\<close> converts to NaN, and
  every comparison with NaN is false.\<close>

definition js_le :: "number option \<Rightarrow> number \<Rightarrow> bool" where
  "js_le x y = (case x of None \<Rightarrow> False | Some a \<Rightarrow> a \<le> y)"

definition js_ge :: "number option \<Rightarrow> number \<Rightarrow> bool" where
  "js_ge x y = (case x of None \<Rightarrow> False | Some a \<Rightarrow> a \<ge> y)"

text \<open>Truthiness of a string or \<open>undefined\<close>: both \<open>undefined\<close> and the empty string are
  falsy.\<close>

definition truthy :: "string option \<Rightarrow> bool" where
  "truthy v = (case v of None \<Rightarrow> False | Some s \<Rightarrow> s \<noteq> [])"

text \<open>\<open>v || ''\<close>.\<close>

definition or_empty :: "string option \<Rightarrow> string" where
  "or_empty v = (if truthy v then the v else [])"

text \<open>\<open>s.split(sep)\<close> for a separator of one character: the text is cut at every occurrence
  of the separator, and empty parts are kept, so the result is never empty.\<close>

fun split :: "char \<Rightarrow> string \<Rightarrow> string list" where
  "split sep [] = [[]]"
| "split sep (ch # cs) =
     (if ch = sep then [] # split sep cs
      else (case split sep cs of [] \<Rightarrow> [[ch]] | p # ps \<Rightarrow> (ch # p) # ps))"

text \<open>\<open>xs[i]\<close>: \<open>undefined\<close> out of range.\<close>

fun index :: "'a list \<Rightarrow> nat \<Rightarrow> 'a option" where
  "index [] i = None"
| "index (x # xs) 0 = Some x"
| "index (x # xs) (Suc i) = index xs i"

text \<open>The outcome of a promise: fulfilled with a value (\<open>Inr\<close>), or rejected (\<open>Inl\<close>). Time
  is not modelled, so a rejection carries the reasons it may have: the promise is rejected
  with one of them, and which one depends on the order in which the awaited calls
  complete.\<close>

type_synonym 'a promise = "error list + 'a"

text \<open>An asynchronous function whose body returns or throws.\<close>

definition settled :: "error + 'a \<Rightarrow> 'a promise" where
  "settled r = (case r of Inl e \<Rightarrow> Inl [e] | Inr x \<Rightarrow> Inr x)"

text \<open>\<open>Promise.all\<close>: fulfilled with the array of the values, in the order of the array,
  when every promise is fulfilled; rejected otherwise, with the reason of the promise that
  is rejected first in time, which is the reason of any one of the rejected promises.\<close>

fun promise_all :: "'a promise list \<Rightarrow> 'a list promise" where
  "promise_all [] = Inr []"
| "promise_all (Inl es # ps) =
     (case promise_all ps of Inl fs \<Rightarrow> Inl (es @ fs) | Inr xs \<Rightarrow> Inl es)"
| "promise_all (Inr x # ps) =
     (case promise_all ps of Inl fs \<Rightarrow> Inl fs | Inr xs \<Rightarrow> Inr (x # xs))"

subsection \<open>The program\<close>

definition FINNHUB_API_BASE :: string where
  "FINNHUB_API_BASE = ''https://finnhub.io/api/v1''"

text \<open>The callback of \<open>supportResistance.map\<close> in \<open>determineLevelBreaks\<close>.\<close>

definition mapLevel :: "ParsedResults \<Rightarrow> number \<Rightarrow> LevelBreak" where
  "mapLevel results level =
     (let brokeSupport =
            (js_le (q_o (quotes results)) level \<and> js_ge (q_h (quotes results)) level);
          brokeResistance =
            (js_ge (q_o (quotes results)) level \<and> js_le (q_l (quotes results)) level)
      in if brokeSupport then
           \<lparr>broke = True, resistance = Some level, support = None,
            closedBroken = Some (js_ge (q_c (quotes results)) level)\<rparr>
         else if brokeResistance then
           \<lparr>broke = True, resistance = None, support = Some level,
            closedBroken = Some (js_le (q_c (quotes results)) level)\<rparr>
         else \<lparr>broke = False, resistance = None, support = None, closedBroken = None\<rparr>)"

text \<open>\<open>determineLevelBreaks\<close>: \<open>map\<close>, then \<open>filter\<close> on \<open>broke\<close>. Calling \<open>map\<close> on
  \<open>undefined\<close> throws.\<close>

definition determineLevelBreaks :: "ParsedResults \<Rightarrow> error + LevelBreak list" where
  "determineLevelBreaks results =
     (case supportResistance results of
        None \<Rightarrow> Inl TypeError
      | Some lvls \<Rightarrow> Inr (filter broke (map (mapLevel results) lvls)))"

definition fetchQuotes :: "Env \<Rightarrow> Upstream \<Rightarrow> string \<Rightarrow> string \<Rightarrow> ApiResult promise" where
  "fetchQuotes env fetch symb resolution =
     settled
       (case fetch \<lparr>endpoint = FINNHUB_API_BASE @ ''/quote'',
                     query = [(''resolution'', resolution), (''symbol'', symb)],
                     finnhub_token = FINNHUB_AUTH_TOKEN env\<rparr> of
          Inl e \<Rightarrow> Inl e
        | Inr d \<Rightarrow> Inr \<lparr>data = d, result = ''quotes''\<rparr>)"

definition fetchSupportResistance ::
  "Env \<Rightarrow> Upstream \<Rightarrow> string \<Rightarrow> string \<Rightarrow> ApiResult promise" where
  "fetchSupportResistance env fetch symb resolution =
     settled
       (case fetch \<lparr>endpoint = FINNHUB_API_BASE @ ''/scan/support-resistance'',
                     query = [(''resolution'', resolution), (''symbol'', symb)],
                     finnhub_token = FINNHUB_AUTH_TOKEN env\<rparr> of
          Inl e \<Rightarrow> Inl e
        | Inr d \<Rightarrow> Inr \<lparr>data = d, result = ''supportResistance''\<rparr>)"

text \<open>\<open>parseResults\<close>: the first element tagged \<open>'quotes'\<close> and the first tagged
  \<open>'supportResistance'\<close>. \<open>filter(...)[0]\<close> is \<open>undefined\<close> when no element has the tag, and
  reading \<open>.data\<close> of it throws. The spread \<open>{ ...quotes.data }\<close> copies the keys.\<close>

definition parseResults :: "ApiResult list \<Rightarrow> error + ParsedResults" where
  "parseResults results =
     (case index (filter (\<lambda>r. result r = ''quotes'') results) 0 of
        None \<Rightarrow> Inl TypeError
      | Some quotesR \<Rightarrow>
          (case index (filter (\<lambda>r. result r = ''supportResistance'') results) 0 of
             None \<Rightarrow> Inl TypeError
           | Some supportResistanceR \<Rightarrow>
               Inr \<lparr>quotes = props (data quotesR),
                    supportResistance = levels (data supportResistanceR)\<rparr>))"

text \<open>\<open>validateAuthorization\<close>: the strict equality \<open>token === CRON_TOKEN\<close> compares two
  values that are each a string or \<open>undefined\<close>.\<close>

definition validateAuthorization :: "Env \<Rightarrow> Headers \<Rightarrow> bool" where
  "validateAuthorization env hdrs =
     (let token = index (split (CHR '' '') (or_empty (hdrs ''authorization''))) 1
      in token = CRON_TOKEN env)"

definition symbols :: "string list" where
  "symbols = [''AAPL'', ''AMD'', ''CRM'', ''MSFT'', ''NIO'', ''NVDA'', ''TSLA'', ''XPEV'']"

text \<open>The asynchronous callback of \<open>symbols.map\<close> in \<open>handler\<close>.\<close>

definition scanSymbol :: "Env \<Rightarrow> Upstream \<Rightarrow> string \<Rightarrow> ScanResult promise" where
  "scanSymbol env fetch symb =
     (case promise_all [fetchQuotes env fetch symb ''D'',
                        fetchSupportResistance env fetch symb ''D''] of
        Inl es \<Rightarrow> Inl es
      | Inr results \<Rightarrow>
          settled
            (case parseResults results of
               Inl e \<Rightarrow> Inl e
             | Inr parsedResults \<Rightarrow>
                 (case determineLevelBreaks parsedResults of
                    Inl e \<Rightarrow> Inl e
                  | Inr bl \<Rightarrow> Inr \<lparr>symbol = symb, brokenLevels = bl\<rparr>)))"

definition text_response :: "nat \<Rightarrow> string \<Rightarrow> Response" where
  "text_response code msg =
     \<lparr>statusCode = code,
      resp_headers = [(''content-type'', ''text/plain; charset=utf8'')],
      body = Text msg\<rparr>"

text \<open>The part of \<open>handler\<close> after its four guards: the scan of every symbol, the filter on
  \<open>brokenLevels.length\<close>, and the response 200.\<close>

definition scanAll :: "Env \<Rightarrow> Upstream \<Rightarrow> Response promise" where
  "scanAll env fetch =
     (case promise_all (map (scanSymbol env fetch) symbols) of
        Inl es \<Rightarrow> Inl es
      | Inr results \<Rightarrow>
          Inr \<lparr>statusCode = 200,
               resp_headers = [(''content-type'', ''application/json; charset=utf8'')],
               body = Json (filter (\<lambda>r. length (brokenLevels r) \<noteq> 0) results)\<rparr>)"

text \<open>\<open>handler\<close>. The log of the request is not modelled. A rejection of the returned
  promise is \<open>Inl\<close>.\<close>

definition handler :: "Env \<Rightarrow> Upstream \<Rightarrow> Request \<Rightarrow> Response promise" where
  "handler env fetch request =
     (if \<not> truthy (CRON_TOKEN env) then Inr (text_response 500 ''config not setup'')
      else if \<not> validateAuthorization env (headers request) then
        Inr (text_response 401 ''unauthorized'')
      else
        (let resolution = queryStringParameters request ''resolution'';
             symb = queryStringParameters request ''symbol''
         in if \<not> truthy symb then Inr (text_response 412 ''missing symbol'')
            else if \<not> truthy resolution then Inr (text_response 412 ''missing resolution'')
            else scanAll env fetch))"

subsection \<open>The wording of the specification\<close>

text \<open>
  The specification takes the token to be the second whitespace-separated part of the
  header. The parts of a text separated by whitespace, in the words of the specification:
  the text is cut at every whitespace character (space, tab, line feed, vertical tab, form
  feed, carriage return). It is compared below with \<open>split\<close> at the space character, which
  is what the program computes.
\<close>

definition is_whitespace :: "char \<Rightarrow> bool" where
  "is_whitespace ch \<longleftrightarrow>
     ch \<in> {CHR '' '', CHR 0x09, CHR 0x0A, CHR 0x0B, CHR 0x0C, CHR 0x0D}"

fun whitespace_parts :: "string \<Rightarrow> string list" where
  "whitespace_parts [] = [[]]"
| "whitespace_parts (ch # cs) =
     (if is_whitespace ch then [] # whitespace_parts cs
      else (case whitespace_parts cs of [] \<Rightarrow> [[ch]] | p # ps \<Rightarrow> (ch # p) # ps))"

subsection \<open>Example inputs\<close>

text \<open>An environment whose secret is \<open>S3cret\<close>, one whose secret is set to the empty string,
  and one where it is not set.\<close>

definition env_ok :: Env where
  "env_ok = \<lparr>CRON_TOKEN = Some ''S3cret'', FINNHUB_AUTH_TOKEN = Some ''fh''\<rparr>"

definition env_empty :: Env where
  "env_empty = \<lparr>CRON_TOKEN = Some [], FINNHUB_AUTH_TOKEN = Some ''fh''\<rparr>"

definition env_unset :: Env where
  "env_unset = \<lparr>CRON_TOKEN = None, FINNHUB_AUTH_TOKEN = Some ''fh''\<rparr>"

text \<open>A request with the given \<open>authorization\<close> header and the query parameters \<open>symbol\<close>
  and \<open>resolution\<close>, each of them optional.\<close>

definition request_of :: "string option \<Rightarrow> string option \<Rightarrow> string option \<Rightarrow> Request" where
  "request_of auth symb resolution =
     \<lparr>headers = (\<lambda>k. if k = ''authorization'' then auth else None),
      queryStringParameters =
        (\<lambda>k. if k = ''symbol'' then symb else if k = ''resolution'' then resolution else None)\<rparr>"

text \<open>\<open>Bearer\<close>, a tab, and the secret; and the same followed by a space and \<open>x\<close>.\<close>

definition header_tab :: string where
  "header_tab = ''Bearer'' @ [CHR 0x09] @ ''S3cret''"

definition header_tab_space :: string where
  "header_tab_space = ''Bearer'' @ [CHR 0x09] @ ''S3cret x''"

text \<open>An upstream provider that fails, and one that answers every call with the quote
  \<open>{o: 100, h: 110, l: 95, c: 108}\<close> and with the levels \<open>[105, 97]\<close> for AAPL, \<open>[100]\<close> for
  AMD and \<open>[200]\<close> for the other symbols.\<close>

definition upstream_down :: Upstream where
  "upstream_down rq = Inl FetchError"

definition upstream_example :: Upstream where
  "upstream_example rq =
     Inr \<lparr>props = \<lparr>q_o = Some 100, q_h = Some 110, q_l = Some 95, q_c = Some 108\<rparr>,
          levels =
            (if map_of (query rq) ''symbol'' = Some ''AAPL'' then Some [105, 97]
             else if map_of (query rq) ''symbol'' = Some ''AMD'' then Some [100]
             else Some [200])\<rparr>"

text \<open>A request that passes the four guards under \<open>env_ok\<close>, and the response that the
  handler gives to it when the provider is \<open>upstream_example\<close>.\<close>

definition request_example :: Request where
  "request_example = request_of (Some ''Bearer S3cret'') (Some ''AAPL'') (Some ''D'')"

definition response_example :: Response where
  "response_example =
     \<lparr>statusCode = 200,
      resp_headers = [(''content-type'', ''application/json; charset=utf8'')],
      body = Json
        [\<lparr>symbol = ''AAPL'',
          brokenLevels =
            [\<lparr>broke = True, resistance = Some 105, support = None, closedBroken = Some True\<rparr>,
             \<lparr>broke = True, resistance = None, support = Some 97,
              closedBroken = Some False\<rparr>]\<rparr>,
         \<lparr>symbol = ''AMD'',
          brokenLevels =
            [\<lparr>broke = True, resistance = Some 100, support = None,
              closedBroken = Some True\<rparr>]\<rparr>]\<rparr>"

text \<open>Two tagged results, as the two fetch functions build them.\<close>

definition quotes_result_example :: ApiResult where
  "quotes_result_example =
     \<lparr>data = \<lparr>props = \<lparr>q_o = Some 100, q_h = Some 110, q_l = Some 95, q_c = Some 108\<rparr>,
              levels = None\<rparr>,
      result = ''quotes''\<rparr>"

definition levels_result_example :: ApiResult where
  "levels_result_example =
     \<lparr>data = \<lparr>props = \<lparr>q_o = None, q_h = None, q_l = None, q_c = None\<rparr>,
              levels = Some [105, 97]\<rparr>,
      result = ''supportResistance''\<rparr>"

section \<open>Level-break determination\<close>

lemma mapLevel_broke_iff:
  "broke (mapLevel r L) \<longleftrightarrow>
     (js_le (q_o (quotes r)) L \<and> js_ge (q_h (quotes r)) L) \<or>
     (js_ge (q_o (quotes r)) L \<and> js_le (q_l (quotes r)) L)"
  by (simp add: mapLevel_def Let_def)

lemma mapLevel_resistance:
  "resistance (mapLevel r L) = Some M \<longleftrightarrow>
     M = L \<and> js_le (q_o (quotes r)) L \<and> js_ge (q_h (quotes r)) L"
  by (auto simp: mapLevel_def Let_def)

lemma mapLevel_support:
  "support (mapLevel r L) = Some M \<longleftrightarrow>
     M = L \<and> \<not> (js_le (q_o (quotes r)) L \<and> js_ge (q_h (quotes r)) L) \<and>
     js_ge (q_o (quotes r)) L \<and> js_le (q_l (quotes r)) L"
  by (auto simp: mapLevel_def Let_def)

lemma mapLevel_closedBroken_resistance:
  "resistance (mapLevel r L) = Some M \<Longrightarrow>
     closedBroken (mapLevel r L) = Some (js_ge (q_c (quotes r)) M)"
  by (auto simp: mapLevel_def Let_def split: if_splits)

lemma mapLevel_closedBroken_support:
  "support (mapLevel r L) = Some M \<Longrightarrow>
     closedBroken (mapLevel r L) = Some (js_le (q_c (quotes r)) M)"
  by (auto simp: mapLevel_def Let_def split: if_splits)

text \<open>The entries that survive the filter, read off the levels: one entry for each level
  that meets one of the two conditions, in the order of the levels.\<close>

lemma filter_map_levels:
  "map (\<lambda>e. (resistance e, support e)) (filter broke (map (mapLevel r) lvls)) =
   map (\<lambda>L. if js_le (q_o (quotes r)) L \<and> js_ge (q_h (quotes r)) L then (Some L, None)
             else (None, Some L))
     (filter (\<lambda>L. (js_le (q_o (quotes r)) L \<and> js_ge (q_h (quotes r)) L) \<or>
                   (js_ge (q_o (quotes r)) L \<and> js_le (q_l (quotes r)) L)) lvls)"
  by (induction lvls) (auto simp: mapLevel_def Let_def)

subsection \<open>Support breaks\<close>

text \<open>
  Claim C1. For every quote \<open>{o, h, l, c}\<close> and every level \<open>L\<close> of the level sequence,
  \<open>determineLevelBreaks\<close> returns, and its result holds a support-break entry for \<open>L\<close> (an
  entry with \<open>broke = true\<close> whose field \<open>resistance\<close> is \<open>L\<close>) if and only if
  \<open>o <= L\<close> and \<open>L <= h\<close>.
\<close>

theorem determineLevelBreaks_support_break_iff:
  "\<exists>bs. determineLevelBreaks
          \<lparr>quotes = \<lparr>q_o = Some ov, q_h = Some hv, q_l = Some lv, q_c = Some cv\<rparr>,
           supportResistance = Some lvls\<rparr> = Inr bs \<and>
        (\<forall>L \<in> set lvls.
           (\<exists>e \<in> set bs. broke e \<and> resistance e = Some L) \<longleftrightarrow> ov \<le> L \<and> L \<le> hv)"
  by (auto simp: determineLevelBreaks_def mapLevel_resistance mapLevel_broke_iff
        js_le_def js_ge_def)

text \<open>The quote \<open>{o: 100, h: 110, l: 95, c: 108}\<close> with the levels \<open>[105, 200]\<close>: an entry for
  105, none for 200.\<close>

theorem determineLevelBreaks_support_break_iff_witness:
  "(105::real) \<in> set [105, 200] \<and> (200::real) \<in> set [105, 200] \<and>
   (\<exists>bs. determineLevelBreaks
          \<lparr>quotes = \<lparr>q_o = Some 100, q_h = Some 110, q_l = Some 95, q_c = Some 108\<rparr>,
           supportResistance = Some [105, 200]\<rparr> = Inr bs \<and>
     (\<exists>e \<in> set bs. broke e \<and> resistance e = Some 105) \<and>
     \<not> (\<exists>e \<in> set bs. broke e \<and> resistance e = Some 200))"
  using determineLevelBreaks_support_break_iff [of 100 110 95 108 "[105, 200]"]
  by auto

subsection \<open>Resistance breaks\<close>

text \<open>
  Claim C2 says that a resistance-break entry for \<open>L\<close> (an entry with \<open>broke = true\<close> whose
  field \<open>support\<close> is \<open>L\<close>) is produced if and only if \<open>o >= L\<close> and \<open>L >= l\<close>. The support
  branch is tested first: for the quote \<open>{o: 100, h: 110, l: 95, c: 108}\<close> and the level
  100, where \<open>o >= L\<close> and \<open>L >= l\<close>, the only entry is a support-break entry.
\<close>

theorem resistance_break_open_on_level_counterexample:
  "determineLevelBreaks
     \<lparr>quotes = \<lparr>q_o = Some 100, q_h = Some 110, q_l = Some 95, q_c = Some 108\<rparr>,
      supportResistance = Some [100]\<rparr> =
     Inr [\<lparr>broke = True, resistance = Some 100, support = None, closedBroken = Some True\<rparr>]
   \<and> (100::real) \<ge> 100 \<and> (100::real) \<ge> 95"
  by (simp add: determineLevelBreaks_def mapLevel_def js_le_def js_ge_def)

text \<open>
  Claim C2, amended. For every quote \<open>{o, h, l, c}\<close> and every level \<open>L\<close> of the level
  sequence, \<open>determineLevelBreaks\<close> returns, and its result holds a resistance-break entry
  for \<open>L\<close> if and only if \<open>o >= L\<close> and \<open>L >= l\<close> and the support-break condition
  (\<open>o <= L\<close> and \<open>L <= h\<close>) does not hold.
\<close>

theorem determineLevelBreaks_resistance_break_iff:
  "\<exists>bs. determineLevelBreaks
          \<lparr>quotes = \<lparr>q_o = Some ov, q_h = Some hv, q_l = Some lv, q_c = Some cv\<rparr>,
           supportResistance = Some lvls\<rparr> = Inr bs \<and>
        (\<forall>L \<in> set lvls.
           (\<exists>e \<in> set bs. broke e \<and> support e = Some L) \<longleftrightarrow>
             (ov \<ge> L \<and> L \<ge> lv) \<and> \<not> (ov \<le> L \<and> L \<le> hv))"
  by (auto simp: determineLevelBreaks_def mapLevel_support mapLevel_broke_iff
        js_le_def js_ge_def)

text \<open>The quote \<open>{o: 100, h: 102, l: 90, c: 92}\<close> with the levels \<open>[95, 100]\<close>: an entry for
  95, none for 100.\<close>

theorem determineLevelBreaks_resistance_break_iff_witness:
  "(95::real) \<in> set [95, 100] \<and> (100::real) \<in> set [95, 100] \<and>
   (\<exists>bs. determineLevelBreaks
          \<lparr>quotes = \<lparr>q_o = Some 100, q_h = Some 102, q_l = Some 90, q_c = Some 92\<rparr>,
           supportResistance = Some [95, 100]\<rparr> = Inr bs \<and>
     (\<exists>e \<in> set bs. broke e \<and> support e = Some 95) \<and>
     \<not> (\<exists>e \<in> set bs. broke e \<and> support e = Some 100))"
  using determineLevelBreaks_resistance_break_iff [of 100 102 90 92 "[95, 100]"]
  by auto

subsection \<open>The field \<open>closedBroken\<close>\<close>

text \<open>
  Claim C3. In the result of \<open>determineLevelBreaks\<close>, the field \<open>closedBroken\<close> of a
  support-break entry for the level \<open>L\<close> is \<open>true\<close> if and only if \<open>c >= L\<close>, and the field
  \<open>closedBroken\<close> of a resistance-break entry for \<open>L\<close> is \<open>true\<close> if and only if \<open>c <= L\<close>.
\<close>

theorem determineLevelBreaks_closedBroken:
  "\<exists>bs. determineLevelBreaks
          \<lparr>quotes = \<lparr>q_o = Some ov, q_h = Some hv, q_l = Some lv, q_c = Some cv\<rparr>,
           supportResistance = Some lvls\<rparr> = Inr bs \<and>
        (\<forall>e \<in> set bs. \<forall>L.
           (resistance e = Some L \<longrightarrow> (closedBroken e = Some True \<longleftrightarrow> cv \<ge> L)) \<and>
           (support e = Some L \<longrightarrow> (closedBroken e = Some True \<longleftrightarrow> cv \<le> L)))"
  by (auto simp: determineLevelBreaks_def js_le_def js_ge_def
      dest!: mapLevel_closedBroken_resistance mapLevel_closedBroken_support)

text \<open>The quote \<open>{o: 100, h: 110, l: 95, c: 108}\<close> with the levels \<open>[105, 109, 97]\<close>: the
  close holds above 105, and neither above 109 nor below 97.\<close>

theorem determineLevelBreaks_closedBroken_witness:
  "\<exists>bs. determineLevelBreaks
          \<lparr>quotes = \<lparr>q_o = Some 100, q_h = Some 110, q_l = Some 95, q_c = Some 108\<rparr>,
           supportResistance = Some [105, 109, 97]\<rparr> = Inr bs \<and>
     (\<exists>e \<in> set bs. resistance e = Some 105 \<and> closedBroken e = Some True) \<and>
     (\<exists>e \<in> set bs. resistance e = Some 109 \<and> closedBroken e \<noteq> Some True) \<and>
     (\<exists>e \<in> set bs. support e = Some 97 \<and> closedBroken e \<noteq> Some True)"
proof -
  from determineLevelBreaks_closedBroken [of 100 110 95 108 "[105, 109, 97]"]
  obtain bs where
    ret: "determineLevelBreaks
          \<lparr>quotes = \<lparr>q_o = Some 100, q_h = Some 110, q_l = Some 95, q_c = Some 108\<rparr>,
           supportResistance = Some [105, 109, 97]\<rparr> = Inr bs"
    and cb: "\<forall>e \<in> set bs. \<forall>L.
           (resistance e = Some L \<longrightarrow> (closedBroken e = Some True \<longleftrightarrow> (108::real) \<ge> L)) \<and>
           (support e = Some L \<longrightarrow> (closedBroken e = Some True \<longleftrightarrow> (108::real) \<le> L))"
    by blast
  from ret have mem:
    "\<exists>e \<in> set bs. resistance e = Some 105"
    "\<exists>e \<in> set bs. resistance e = Some 109"
    "\<exists>e \<in> set bs. support e = Some 97"
    by (auto simp: determineLevelBreaks_def mapLevel_def js_le_def js_ge_def)
  from mem(1) cb have a: "\<exists>e \<in> set bs. resistance e = Some 105 \<and> closedBroken e = Some True"
    by fastforce
  from mem(2) cb have b: "\<exists>e \<in> set bs. resistance e = Some 109 \<and> closedBroken e \<noteq> Some True"
    by fastforce
  from mem(3) cb have c: "\<exists>e \<in> set bs. support e = Some 97 \<and> closedBroken e \<noteq> Some True"
    by fastforce
  from ret a b c show ?thesis by blast
qed

subsection \<open>One entry for each level, in the order of the levels\<close>

text \<open>
  Claim C4. For every quote and level sequence, each level contributes at most one entry
  to the result of \<open>determineLevelBreaks\<close>, and the entries come in the order of the
  levels: read by their fields \<open>resistance\<close> and \<open>support\<close>, the entries are the levels that
  meet one of the two conditions, each once and in the order of the input. A level that
  meets both conditions gives a support-break entry (field \<open>resistance\<close> set) and no
  resistance-break entry.
\<close>

theorem determineLevelBreaks_one_entry_per_level:
  "\<exists>bs. determineLevelBreaks
          \<lparr>quotes = \<lparr>q_o = Some ov, q_h = Some hv, q_l = Some lv, q_c = Some cv\<rparr>,
           supportResistance = Some lvls\<rparr> = Inr bs \<and>
        map (\<lambda>e. (resistance e, support e)) bs =
          map (\<lambda>L. if ov \<le> L \<and> L \<le> hv then (Some L, None) else (None, Some L))
            (filter (\<lambda>L. (ov \<le> L \<and> L \<le> hv) \<or> (ov \<ge> L \<and> L \<ge> lv)) lvls) \<and>
        length bs \<le> length lvls \<and>
        (\<forall>L \<in> set lvls. (ov \<le> L \<and> L \<le> hv) \<and> (ov \<ge> L \<and> L \<ge> lv) \<longrightarrow>
           (\<exists>e \<in> set bs. resistance e = Some L) \<and> \<not> (\<exists>e \<in> set bs. support e = Some L))"
proof -
  let ?r = "\<lparr>quotes = \<lparr>q_o = Some ov, q_h = Some hv, q_l = Some lv, q_c = Some cv\<rparr>,
           supportResistance = Some lvls\<rparr>"
  let ?bs = "filter broke (map (mapLevel ?r) lvls)"
  have ret: "determineLevelBreaks ?r = Inr ?bs"
    by (simp add: determineLevelBreaks_def)
  have order: "map (\<lambda>e. (resistance e, support e)) ?bs =
          map (\<lambda>L. if ov \<le> L \<and> L \<le> hv then (Some L, None) else (None, Some L))
            (filter (\<lambda>L. (ov \<le> L \<and> L \<le> hv) \<or> (ov \<ge> L \<and> L \<ge> lv)) lvls)"
    using filter_map_levels [of ?r lvls] by (simp add: js_le_def js_ge_def)
  have len: "length ?bs \<le> length lvls"
    using length_filter_le [of broke "map (mapLevel ?r) lvls"] by simp
  have both: "\<forall>L \<in> set lvls. (ov \<le> L \<and> L \<le> hv) \<and> (ov \<ge> L \<and> L \<ge> lv) \<longrightarrow>
           (\<exists>e \<in> set ?bs. resistance e = Some L) \<and> \<not> (\<exists>e \<in> set ?bs. support e = Some L)"
    by (auto simp: mapLevel_resistance mapLevel_support mapLevel_broke_iff js_le_def js_ge_def)
  from ret order len both show ?thesis by blast
qed

text \<open>The quote \<open>{o: 100, h: 110, l: 95, c: 108}\<close> with the levels \<open>[200, 100, 97, 105]\<close>:
  nothing for 200, a support break for 100 (which meets both conditions), a resistance
  break for 97 and a support break for 105, in this order.\<close>

theorem determineLevelBreaks_one_entry_per_level_witness:
  "(100::real) \<in> set [200, 100, 97, 105] \<and>
   ((100::real) \<le> 100 \<and> (100::real) \<le> 110) \<and> ((100::real) \<ge> 100 \<and> (100::real) \<ge> 95) \<and>
   (\<exists>bs. determineLevelBreaks
          \<lparr>quotes = \<lparr>q_o = Some 100, q_h = Some 110, q_l = Some 95, q_c = Some 108\<rparr>,
           supportResistance = Some [200, 100, 97, 105]\<rparr> = Inr bs \<and>
      map (\<lambda>e. (resistance e, support e)) bs =
        [(Some 100, None), (None, Some 97), (Some 105, None)] \<and>
      (\<exists>e \<in> set bs. resistance e = Some 100) \<and> \<not> (\<exists>e \<in> set bs. support e = Some 100))"
  using determineLevelBreaks_one_entry_per_level [of 100 110 95 108 "[200, 100, 97, 105]"]
  by auto

section \<open>Parsing the upstream results\<close>

text \<open>
  Claim C10. \<open>parseResults\<close> does not depend on the order of its two inputs: for a result
  tagged \<open>'quotes'\<close> and a result tagged \<open>'supportResistance'\<close>, it returns on the
  two-element array in either order, with the same value: the quote keys of the first and
  the level sequence of the second.
\<close>

theorem parseResults_order_insensitive:
  assumes "result q = ''quotes''" and "result s = ''supportResistance''"
  shows "parseResults [q, s] = parseResults [s, q] \<and>
         parseResults [q, s] =
           Inr \<lparr>quotes = props (data q), supportResistance = levels (data s)\<rparr>"
  using assms by (simp add: parseResults_def)

theorem parseResults_order_insensitive_witness:
  "result quotes_result_example = ''quotes'' \<and>
   result levels_result_example = ''supportResistance'' \<and>
   parseResults [levels_result_example, quotes_result_example] =
     Inr \<lparr>quotes = \<lparr>q_o = Some 100, q_h = Some 110, q_l = Some 95, q_c = Some 108\<rparr>,
          supportResistance = Some [105, 97]\<rparr>"
proof -
  have tq: "result quotes_result_example = ''quotes''"
    by (simp add: quotes_result_example_def)
  have ts: "result levels_result_example = ''supportResistance''"
    by (simp add: levels_result_example_def)
  have val: "\<lparr>quotes = props (data quotes_result_example),
              supportResistance = levels (data levels_result_example)\<rparr> =
             \<lparr>quotes = \<lparr>q_o = Some 100, q_h = Some 110, q_l = Some 95, q_c = Some 108\<rparr>,
              supportResistance = Some [105, 97]\<rparr>"
    by (simp add: quotes_result_example_def levels_result_example_def)
  note both = parseResults_order_insensitive [OF tq ts]
  from both have swap:
    "parseResults [quotes_result_example, levels_result_example] =
     parseResults [levels_result_example, quotes_result_example]"
    by (rule conjunct1)
  from both have run:
    "parseResults [quotes_result_example, levels_result_example] =
       Inr \<lparr>quotes = props (data quotes_result_example),
            supportResistance = levels (data levels_result_example)\<rparr>"
    by (rule conjunct2)
  from swap [symmetric] run
  have "parseResults [levels_result_example, quotes_result_example] =
          Inr \<lparr>quotes = props (data quotes_result_example),
               supportResistance = levels (data levels_result_example)\<rparr>"
    by (rule trans)
  with val tq ts show ?thesis by (simp only: simp_thms)
qed

section \<open>Authorization\<close>

lemma split_not_Nil: "split sep s \<noteq> []"
  by (induction s) (auto split: list.splits)

lemma split_no_sep: "sep \<notin> set s \<Longrightarrow> split sep s = [s]"
  by (induction s) auto

lemma split_append_sep:
  "sep \<notin> set a \<Longrightarrow> split sep (a @ sep # b) = a # split sep b"
  by (induction a) auto

lemma index_split_0: "index (split sep s) 0 = Some (takeWhile (\<lambda>ch. ch \<noteq> sep) s)"
  by (induction s) (auto split: list.splits simp: split_not_Nil)

lemma or_empty_Some: "or_empty (Some s) = s"
  by (simp add: or_empty_def truthy_def)

lemma or_empty_None: "or_empty None = []"
  by (simp add: or_empty_def truthy_def)

lemmas example_defs =
  env_ok_def env_empty_def env_unset_def request_of_def header_tab_def header_tab_space_def
  upstream_down_def

subsection \<open>The token is cut out at spaces\<close>

text \<open>
  Claim C8 says that a header value with at least one space is authorized if and only if
  its second whitespace-separated part is the secret. The program cuts the value at the
  space character only: in \<open>Bearer<TAB>S3cret x\<close>, which contains a space, the second
  whitespace-separated part is the secret \<open>S3cret\<close>, and the request is not authorized (the
  program compares \<open>x\<close> with the secret).
\<close>

theorem validateAuthorization_tab_counterexample:
  "CRON_TOKEN env_ok = Some ''S3cret'' \<and>
   CHR '' '' \<in> set header_tab_space \<and>
   index (whitespace_parts header_tab_space) 1 = Some ''S3cret'' \<and>
   \<not> validateAuthorization env_ok (headers (request_of (Some header_tab_space) None None))"
  by (simp add: example_defs validateAuthorization_def or_empty_def truthy_def
      is_whitespace_def)

text \<open>
  Claim C8, amended. Authorization never inspects the scheme. With a secret configured, a
  header value that contains a space, that is a value \<open>scheme\<close>, space, \<open>rest\<close> where
  \<open>scheme\<close> has no space, is authorized if and only if the second space-separated part
  (\<open>rest\<close> up to its first space, the element 1 of the split at the space character) is
  the secret, whatever \<open>scheme\<close> is, the empty scheme included. A header value that contains
  no space, even the secret itself, is never authorized.
\<close>

theorem validateAuthorization_second_part:
  assumes "CRON_TOKEN env = Some secret" and "hdrs ''authorization'' = Some hv"
  shows
    "(\<forall>scheme rest. hv = scheme @ CHR '' '' # rest \<and> CHR '' '' \<notin> set scheme \<longrightarrow>
        (validateAuthorization env hdrs \<longleftrightarrow>
           takeWhile (\<lambda>ch. ch \<noteq> CHR '' '') rest = secret)) \<and>
     (CHR '' '' \<in> set hv \<longrightarrow>
        (validateAuthorization env hdrs \<longleftrightarrow> index (split (CHR '' '') hv) 1 = Some secret)) \<and>
     (CHR '' '' \<notin> set hv \<longrightarrow> \<not> validateAuthorization env hdrs)"
proof -
  have va: "validateAuthorization env hdrs \<longleftrightarrow> index (split (CHR '' '') hv) 1 = Some secret"
    using assms by (simp add: validateAuthorization_def or_empty_Some)
  have nospace: "\<not> validateAuthorization env hdrs" if "CHR '' '' \<notin> set hv"
    using that by (simp add: va split_no_sep)
  have space: "validateAuthorization env hdrs \<longleftrightarrow>
                 takeWhile (\<lambda>ch. ch \<noteq> CHR '' '') rest = secret"
    if "hv = scheme @ CHR '' '' # rest" and "CHR '' '' \<notin> set scheme" for scheme rest
    using that by (simp add: va split_append_sep index_split_0)
  from va nospace space show ?thesis by blast
qed

text \<open>Another scheme, the empty scheme and a third part are accepted; a wrong token and
  the bare secret are refused.\<close>

theorem validateAuthorization_second_part_witness:
  "validateAuthorization env_ok (headers (request_of (Some ''Basic S3cret'') None None)) \<and>
   validateAuthorization env_ok (headers (request_of (Some '' S3cret'') None None)) \<and>
   validateAuthorization env_ok (headers (request_of (Some ''Bearer S3cret more'') None None)) \<and>
   \<not> validateAuthorization env_ok (headers (request_of (Some ''Bearer wrong'') None None)) \<and>
   \<not> validateAuthorization env_ok (headers (request_of (Some ''S3cret'') None None))"
proof -
  have ok: "CRON_TOKEN env_ok = Some ''S3cret''"
    by (simp add: env_ok_def)
  have hd: "headers (request_of (Some hv) None None) ''authorization'' = Some hv" for hv
    by (simp add: request_of_def)
  have a: "validateAuthorization env_ok (headers (request_of (Some ''Basic S3cret'') None None))"
    using validateAuthorization_second_part
      [where env = env_ok and secret = "''S3cret''" and hv = "''Basic S3cret''" and
        hdrs = "headers (request_of (Some ''Basic S3cret'') None None)", OF ok hd]
    by simp
  have b: "validateAuthorization env_ok (headers (request_of (Some '' S3cret'') None None))"
    using validateAuthorization_second_part
      [where env = env_ok and secret = "''S3cret''" and hv = "'' S3cret''" and
        hdrs = "headers (request_of (Some '' S3cret'') None None)", OF ok hd]
    by simp
  have c: "validateAuthorization env_ok
             (headers (request_of (Some ''Bearer S3cret more'') None None))"
    using validateAuthorization_second_part
      [where env = env_ok and secret = "''S3cret''" and hv = "''Bearer S3cret more''" and
        hdrs = "headers (request_of (Some ''Bearer S3cret more'') None None)", OF ok hd]
    by simp
  have d: "\<not> validateAuthorization env_ok (headers (request_of (Some ''Bearer wrong'') None None))"
    using validateAuthorization_second_part
      [where env = env_ok and secret = "''S3cret''" and hv = "''Bearer wrong''" and
        hdrs = "headers (request_of (Some ''Bearer wrong'') None None)", OF ok hd]
    by simp
  have e: "\<not> validateAuthorization env_ok (headers (request_of (Some ''S3cret'') None None))"
    using validateAuthorization_second_part
      [where env = env_ok and secret = "''S3cret''" and hv = "''S3cret''" and
        hdrs = "headers (request_of (Some ''S3cret'') None None)", OF ok hd]
    by simp
  from a b c d e show ?thesis by simp
qed

subsection \<open>Authorization in the handler\<close>

text \<open>
  Claim C7 says that, with a non-empty secret configured, a request whose second
  whitespace-separated part of the \<open>authorization\<close> header is the secret passes
  authorization. For the header \<open>Bearer<TAB>S3cret\<close> and the secret \<open>S3cret\<close> the handler
  answers 401: the value has no space, so the program finds no second part.
\<close>

theorem handler_tab_separated_token_counterexample:
  "CRON_TOKEN env_ok = Some ''S3cret'' \<and>
   index (whitespace_parts header_tab) 1 = Some ''S3cret'' \<and>
   handler env_ok upstream_down (request_of (Some header_tab) (Some ''AAPL'') (Some ''D'')) =
     Inr (text_response 401 ''unauthorized'')"
  by (simp add: example_defs handler_def validateAuthorization_def or_empty_def truthy_def
      is_whitespace_def)

text \<open>
  Claim C7, amended. With the secret configured and non-empty: a request with no
  \<open>authorization\<close> header receives 401 \<open>unauthorized\<close>; a request whose header has no second
  space-separated part (the value cut at every space character), or one that differs from
  the secret, receives 401 \<open>unauthorized\<close>; a request whose second space-separated part is
  the secret passes authorization, and the handler goes on to the checks of the query
  parameters.
\<close>

theorem handler_authorization:
  assumes "CRON_TOKEN env = Some secret" and "secret \<noteq> []"
  shows
    "(headers request ''authorization'' = None \<longrightarrow>
        handler env fetch request = Inr (text_response 401 ''unauthorized'')) \<and>
     (\<forall>hv. headers request ''authorization'' = Some hv \<and>
            index (split (CHR '' '') hv) 1 \<noteq> Some secret \<longrightarrow>
        handler env fetch request = Inr (text_response 401 ''unauthorized'')) \<and>
     (\<forall>hv. headers request ''authorization'' = Some hv \<and>
            index (split (CHR '' '') hv) 1 = Some secret \<longrightarrow>
        validateAuthorization env (headers request) \<and>
        handler env fetch request =
          (if \<not> truthy (queryStringParameters request ''symbol'') then
             Inr (text_response 412 ''missing symbol'')
           else if \<not> truthy (queryStringParameters request ''resolution'') then
             Inr (text_response 412 ''missing resolution'')
           else scanAll env fetch))"
proof -
  have conf: "truthy (CRON_TOKEN env)"
    using assms by (simp add: truthy_def)
  have none: "\<not> validateAuthorization env (headers request)"
    if "headers request ''authorization'' = None"
    using that assms by (simp add: validateAuthorization_def or_empty_None)
  have some: "validateAuthorization env (headers request) \<longleftrightarrow>
                index (split (CHR '' '') hv) 1 = Some secret"
    if "headers request ''authorization'' = Some hv" for hv
    using that assms by (simp add: validateAuthorization_def or_empty_Some)
  show ?thesis
    using conf none some by (simp add: handler_def Let_def)
qed

text \<open>No header, a wrong token, and the right token with the parameter \<open>symbol\<close>
  missing.\<close>

theorem handler_authorization_witness:
  "handler env_ok upstream_down (request_of None (Some ''AAPL'') (Some ''D'')) =
     Inr (text_response 401 ''unauthorized'') \<and>
   handler env_ok upstream_down (request_of (Some ''Bearer wrong'') (Some ''AAPL'') (Some ''D'')) =
     Inr (text_response 401 ''unauthorized'') \<and>
   handler env_ok upstream_down (request_of (Some ''Bearer S3cret'') None (Some ''D'')) =
     Inr (text_response 412 ''missing symbol'')"
proof -
  have ok: "CRON_TOKEN env_ok = Some ''S3cret''" "''S3cret'' \<noteq> []"
    by (simp_all add: env_ok_def)
  note inst = handler_authorization [OF ok, where fetch = upstream_down]
  have a: "handler env_ok upstream_down (request_of None (Some ''AAPL'') (Some ''D'')) =
     Inr (text_response 401 ''unauthorized'')"
    using inst [where request = "request_of None (Some ''AAPL'') (Some ''D'')"]
    by (simp add: request_of_def)
  have b: "handler env_ok upstream_down
             (request_of (Some ''Bearer wrong'') (Some ''AAPL'') (Some ''D'')) =
     Inr (text_response 401 ''unauthorized'')"
    using inst [where request = "request_of (Some ''Bearer wrong'') (Some ''AAPL'') (Some ''D'')"]
    by (simp add: request_of_def)
  have c: "handler env_ok upstream_down (request_of (Some ''Bearer S3cret'') None (Some ''D'')) =
     Inr (text_response 412 ''missing symbol'')"
    using inst [where request = "request_of (Some ''Bearer S3cret'') None (Some ''D'')"]
    by (simp add: request_of_def truthy_def)
  from a b c show ?thesis by simp
qed

section \<open>The guards of the handler\<close>

text \<open>
  Claim C6 says that the handler answers 500 when the secret is absent, and otherwise 401
  when authorization fails. The first guard tests that the secret is truthy: when
  \<open>CRON_TOKEN\<close> is set to the empty string, the secret is not absent, authorization fails
  (there is no header), and the handler answers 500, not 401.
\<close>

theorem handler_empty_secret_counterexample:
  "CRON_TOKEN env_empty = Some [] \<and>
   \<not> validateAuthorization env_empty (headers (request_of None None None)) \<and>
   handler env_empty upstream_down (request_of None None None) =
     Inr (text_response 500 ''config not setup'') \<and>
   handler env_empty upstream_down (request_of None None None) \<noteq>
     Inr (text_response 401 ''unauthorized'')"
  by (simp add: example_defs handler_def validateAuthorization_def or_empty_def truthy_def
      text_response_def)

text \<open>
  Claim C6, amended. The handler evaluates its guards in a fixed order, each with its own
  response. If the secret is absent or empty, it answers 500 \<open>config not setup\<close>, whatever
  the headers and the query parameters. Otherwise, if authorization fails, it answers 401
  \<open>unauthorized\<close>. Otherwise, if the parameter \<open>symbol\<close> is absent or empty, it answers 412
  \<open>missing symbol\<close>, whatever \<open>resolution\<close> is. Otherwise, if the parameter \<open>resolution\<close> is
  absent or empty, it answers 412 \<open>missing resolution\<close>.
\<close>

theorem handler_guard_order:
  "(CRON_TOKEN env = None \<or> CRON_TOKEN env = Some [] \<longrightarrow>
      handler env fetch request = Inr (text_response 500 ''config not setup'')) \<and>
   (CRON_TOKEN env = Some secret \<and> secret \<noteq> [] \<longrightarrow>
      (\<not> validateAuthorization env (headers request) \<longrightarrow>
         handler env fetch request = Inr (text_response 401 ''unauthorized'')) \<and>
      (validateAuthorization env (headers request) \<longrightarrow>
         (queryStringParameters request ''symbol'' = None \<or>
          queryStringParameters request ''symbol'' = Some [] \<longrightarrow>
            handler env fetch request = Inr (text_response 412 ''missing symbol'')) \<and>
         (queryStringParameters request ''symbol'' = Some sv \<and> sv \<noteq> [] \<and>
          (queryStringParameters request ''resolution'' = None \<or>
           queryStringParameters request ''resolution'' = Some []) \<longrightarrow>
            handler env fetch request = Inr (text_response 412 ''missing resolution''))))"
  by (auto simp: handler_def truthy_def Let_def)

text \<open>One request for each response: the secret not set, the secret empty, a wrong
  token, no \<open>symbol\<close>, no \<open>resolution\<close>.\<close>

theorem handler_guard_order_witness:
  "handler env_unset upstream_down
     (request_of (Some ''Bearer S3cret'') (Some ''AAPL'') (Some ''D'')) =
     Inr (text_response 500 ''config not setup'') \<and>
   handler env_empty upstream_down (request_of (Some ''Bearer '') (Some ''AAPL'') (Some ''D'')) =
     Inr (text_response 500 ''config not setup'') \<and>
   handler env_ok upstream_down (request_of (Some ''Bearer wrong'') None None) =
     Inr (text_response 401 ''unauthorized'') \<and>
   handler env_ok upstream_down (request_of (Some ''Bearer S3cret'') None None) =
     Inr (text_response 412 ''missing symbol'') \<and>
   handler env_ok upstream_down (request_of (Some ''Bearer S3cret'') (Some ''AAPL'') None) =
     Inr (text_response 412 ''missing resolution'')"
proof -
  have unset: "CRON_TOKEN env_unset = None"
    and empty: "CRON_TOKEN env_empty = Some []"
    and ok: "CRON_TOKEN env_ok = Some ''S3cret'' \<and> ''S3cret'' \<noteq> []"
    by (simp_all add: example_defs)
  have wrong:
    "\<not> validateAuthorization env_ok (headers (request_of (Some ''Bearer wrong'') None None))"
    by (simp add: example_defs validateAuthorization_def or_empty_def truthy_def)
  have right: "validateAuthorization env_ok (headers (request_of (Some ''Bearer S3cret'') sy re))"
    for sy re
    by (simp add: example_defs validateAuthorization_def or_empty_def truthy_def)
  have q1: "queryStringParameters (request_of (Some ''Bearer S3cret'') None None) ''symbol'' = None"
    by (simp add: request_of_def)
  have q2:
    "queryStringParameters (request_of (Some ''Bearer S3cret'') (Some ''AAPL'') None) ''symbol''
      = Some ''AAPL'' \<and> ''AAPL'' \<noteq> [] \<and>
     queryStringParameters (request_of (Some ''Bearer S3cret'') (Some ''AAPL'') None)
       ''resolution'' = None"
    by (simp add: request_of_def)
  have a: "handler env_unset upstream_down
             (request_of (Some ''Bearer S3cret'') (Some ''AAPL'') (Some ''D'')) =
           Inr (text_response 500 ''config not setup'')"
    using handler_guard_order [where env = env_unset and fetch = upstream_down and
        request = "request_of (Some ''Bearer S3cret'') (Some ''AAPL'') (Some ''D'')"]
      unset by simp
  have b: "handler env_empty upstream_down
             (request_of (Some ''Bearer '') (Some ''AAPL'') (Some ''D'')) =
           Inr (text_response 500 ''config not setup'')"
    using handler_guard_order [where env = env_empty and fetch = upstream_down and
        request = "request_of (Some ''Bearer '') (Some ''AAPL'') (Some ''D'')"]
      empty by simp
  have c: "handler env_ok upstream_down (request_of (Some ''Bearer wrong'') None None) =
           Inr (text_response 401 ''unauthorized'')"
    using handler_guard_order [where env = env_ok and fetch = upstream_down and
        secret = "''S3cret''" and request = "request_of (Some ''Bearer wrong'') None None"]
      ok wrong by simp
  have d: "handler env_ok upstream_down (request_of (Some ''Bearer S3cret'') None None) =
           Inr (text_response 412 ''missing symbol'')"
    using handler_guard_order [where env = env_ok and fetch = upstream_down and
        secret = "''S3cret''" and request = "request_of (Some ''Bearer S3cret'') None None"]
      ok right q1 by simp
  have e: "handler env_ok upstream_down
             (request_of (Some ''Bearer S3cret'') (Some ''AAPL'') None) =
           Inr (text_response 412 ''missing resolution'')"
    using handler_guard_order [where env = env_ok and fetch = upstream_down and
        secret = "''S3cret''" and sv = "''AAPL''" and
        request = "request_of (Some ''Bearer S3cret'') (Some ''AAPL'') None"]
      ok right q2 by simp
  from a b c d e show ?thesis by simp
qed

subsection \<open>Empty query parameters\<close>

text \<open>
  Claim C9 says that, with the secret configured and a valid token, a request whose
  parameter \<open>symbol\<close> is the empty string receives 412 \<open>missing symbol\<close>. When \<open>CRON_TOKEN\<close>
  is set to the empty string, the token of the header \<open>Bearer\<close> followed by a space is the
  empty string, equal to the secret; the parameter \<open>symbol\<close> is the empty string, and the
  handler answers 500 at its first guard, not 412.
\<close>

theorem handler_empty_parameters_empty_secret_counterexample:
  "CRON_TOKEN env_empty = Some [] \<and>
   validateAuthorization env_empty
     (headers (request_of (Some ''Bearer '') (Some []) (Some ''D''))) \<and>
   queryStringParameters (request_of (Some ''Bearer '') (Some []) (Some ''D'')) ''symbol'' =
     Some [] \<and>
   handler env_empty upstream_down (request_of (Some ''Bearer '') (Some []) (Some ''D'')) =
     Inr (text_response 500 ''config not setup'') \<and>
   handler env_empty upstream_down (request_of (Some ''Bearer '') (Some []) (Some ''D'')) \<noteq>
     Inr (text_response 412 ''missing symbol'')"
  by (simp add: example_defs handler_def validateAuthorization_def or_empty_def truthy_def
      text_response_def)

text \<open>
  Claim C9, amended. The presence of the query parameters is decided by truthiness, not by
  the presence of the key: with the secret configured and non-empty and a valid token, a
  request whose parameter \<open>symbol\<close> is the empty string receives 412 \<open>missing symbol\<close>, and
  a request with a non-empty \<open>symbol\<close> and an empty \<open>resolution\<close> receives 412
  \<open>missing resolution\<close>.
\<close>

theorem handler_empty_parameters:
  assumes "CRON_TOKEN env = Some secret" and "secret \<noteq> []"
    and "validateAuthorization env (headers request)"
  shows
    "(queryStringParameters request ''symbol'' = Some [] \<longrightarrow>
        handler env fetch request = Inr (text_response 412 ''missing symbol'')) \<and>
     (\<forall>sv. queryStringParameters request ''symbol'' = Some sv \<and> sv \<noteq> [] \<and>
           queryStringParameters request ''resolution'' = Some [] \<longrightarrow>
        handler env fetch request = Inr (text_response 412 ''missing resolution''))"
  using assms by (simp add: handler_def truthy_def Let_def)

theorem handler_empty_parameters_witness:
  "handler env_ok upstream_down (request_of (Some ''Bearer S3cret'') (Some []) (Some ''D'')) =
     Inr (text_response 412 ''missing symbol'') \<and>
   handler env_ok upstream_down (request_of (Some ''Bearer S3cret'') (Some ''AAPL'') (Some [])) =
     Inr (text_response 412 ''missing resolution'')"
proof -
  have ok: "CRON_TOKEN env_ok = Some ''S3cret''" "''S3cret'' \<noteq> []"
    by (simp_all add: env_ok_def)
  have va: "validateAuthorization env_ok (headers (request_of (Some ''Bearer S3cret'') sy re))"
    for sy re
    by (simp add: env_ok_def request_of_def validateAuthorization_def or_empty_def truthy_def)
  have a: "handler env_ok upstream_down
             (request_of (Some ''Bearer S3cret'') (Some []) (Some ''D'')) =
           Inr (text_response 412 ''missing symbol'')"
    using handler_empty_parameters [where env = env_ok and secret = "''S3cret''" and
        fetch = upstream_down and
        request = "request_of (Some ''Bearer S3cret'') (Some []) (Some ''D'')", OF ok va]
    by (simp add: request_of_def)
  have b: "handler env_ok upstream_down
             (request_of (Some ''Bearer S3cret'') (Some ''AAPL'') (Some [])) =
           Inr (text_response 412 ''missing resolution'')"
    using handler_empty_parameters [where env = env_ok and secret = "''S3cret''" and
        fetch = upstream_down and
        request = "request_of (Some ''Bearer S3cret'') (Some ''AAPL'') (Some [])", OF ok va]
    by (simp add: request_of_def)
  from a b show ?thesis by simp
qed

section \<open>The response 200\<close>

lemma promise_all_Inr: "promise_all ps = Inr xs \<Longrightarrow> ps = map Inr xs"
  by (induction ps arbitrary: xs rule: promise_all.induct) (auto split: sum.splits)

lemma scanSymbol_symbol: "scanSymbol env fetch symb = Inr r \<Longrightarrow> symbol r = symb"
  by (auto simp: scanSymbol_def settled_def split: sum.splits)

lemma scanSymbol_broke:
  "scanSymbol env fetch symb = Inr r \<Longrightarrow> e \<in> set (brokenLevels r) \<Longrightarrow> broke e"
  by (auto simp: scanSymbol_def settled_def determineLevelBreaks_def
        split: sum.splits option.splits)

lemma scanAll_results:
  assumes "scanAll env fetch = Inr resp"
  shows "statusCode resp = 200 \<and>
    (\<exists>results. map (scanSymbol env fetch) symbols = map Inr results \<and>
       body resp = Json (filter (\<lambda>r. brokenLevels r \<noteq> []) results))"
  using assms by (auto simp: scanAll_def split: sum.splits dest: promise_all_Inr)

lemma handler_200:
  assumes "handler env fetch request = Inr resp" and "statusCode resp = 200"
  shows "scanAll env fetch = Inr resp"
  using assms by (auto simp: handler_def text_response_def Let_def split: if_splits)

text \<open>
  Claim C5. In every response 200, the serialised array holds only records whose
  \<open>brokenLevels\<close> is not empty: a symbol whose computed \<open>brokenLevels\<close> is empty does not
  appear in the response at all, and every entry that appears has \<open>broke = true\<close>.
\<close>

theorem handler_200_only_broken_levels:
  assumes "handler env fetch request = Inr resp" and "statusCode resp = 200"
  shows "\<exists>rs. body resp = Json rs \<and>
           (\<forall>r \<in> set rs. brokenLevels r \<noteq> [] \<and> (\<forall>e \<in> set (brokenLevels r). broke e)) \<and>
           (\<forall>symb r. scanSymbol env fetch symb = Inr r \<and> brokenLevels r = [] \<longrightarrow>
              symb \<notin> symbol ` set rs)"
proof -
  from assms have "scanAll env fetch = Inr resp" by (rule handler_200)
  then obtain results where
    scans: "map (scanSymbol env fetch) symbols = map Inr results" and
    bd: "body resp = Json (filter (\<lambda>r. brokenLevels r \<noteq> []) results)"
    using scanAll_results by blast
  let ?rs = "filter (\<lambda>r. brokenLevels r \<noteq> []) results"
  have origin: "\<exists>symb. scanSymbol env fetch symb = Inr r" if "r \<in> set results" for r
  proof -
    from that have "Inr r \<in> set (map (scanSymbol env fetch) symbols)"
      by (simp add: scans)
    then show ?thesis by auto
  qed
  have nonempty: "\<forall>r \<in> set ?rs. brokenLevels r \<noteq> [] \<and> (\<forall>e \<in> set (brokenLevels r). broke e)"
    using origin scanSymbol_broke by fastforce
  have absent: "symb \<notin> symbol ` set ?rs"
    if "scanSymbol env fetch symb = Inr r" and "brokenLevels r = []" for symb r
  proof
    assume "symb \<in> symbol ` set ?rs"
    then obtain r' where r': "r' \<in> set results" "brokenLevels r' \<noteq> []" "symbol r' = symb"
      by auto
    from origin [OF r'(1)] obtain s where s: "scanSymbol env fetch s = Inr r'" by blast
    with r'(3) have "s = symb" using scanSymbol_symbol by blast
    with s that(1) have "r' = r" by simp
    with that(2) r'(2) show False by simp
  qed
  from bd nonempty absent show ?thesis by blast
qed

text \<open>A run where AAPL and AMD have broken levels and the six other symbols have none:
  only AAPL and AMD are in the response.\<close>

theorem handler_200_only_broken_levels_witness:
  "handler env_ok upstream_example request_example = Inr response_example \<and>
   statusCode response_example = 200 \<and>
   scanSymbol env_ok upstream_example ''MSFT'' = Inr \<lparr>symbol = ''MSFT'', brokenLevels = []\<rparr> \<and>
   (\<exists>rs. body response_example = Json rs \<and>
      (\<forall>r \<in> set rs. brokenLevels r \<noteq> [] \<and> (\<forall>e \<in> set (brokenLevels r). broke e)) \<and>
      ''MSFT'' \<notin> symbol ` set rs)"
proof -
  have run: "handler env_ok upstream_example request_example = Inr response_example"
    by (simp add: handler_def env_ok_def request_example_def request_of_def
        response_example_def validateAuthorization_def or_empty_def truthy_def scanAll_def
        symbols_def scanSymbol_def settled_def fetchQuotes_def fetchSupportResistance_def
        upstream_example_def parseResults_def determineLevelBreaks_def mapLevel_def
        js_le_def js_ge_def Let_def)
  have st: "statusCode response_example = 200"
    by (simp add: response_example_def)
  have msft: "scanSymbol env_ok upstream_example ''MSFT'' =
                Inr \<lparr>symbol = ''MSFT'', brokenLevels = []\<rparr>"
    by (simp add: scanSymbol_def settled_def fetchQuotes_def fetchSupportResistance_def
        upstream_example_def parseResults_def determineLevelBreaks_def mapLevel_def
        js_le_def js_ge_def Let_def)
  from handler_200_only_broken_levels [OF run st] obtain rs where
    bd: "body response_example = Json rs" and
    ne: "\<forall>r \<in> set rs. brokenLevels r \<noteq> [] \<and> (\<forall>e \<in> set (brokenLevels r). broke e)" and
    ab: "\<forall>symb r. scanSymbol env_ok upstream_example symb = Inr r \<and> brokenLevels r = [] \<longrightarrow>
              symb \<notin> symbol ` set rs"
    by blast
  from ab msft have "''MSFT'' \<notin> symbol ` set rs"
    by simp
  with run st msft bd ne show ?thesis by blast
qed

end
